theory Spec2Isabelle
  imports Complex_Main "HOL-Library.Word"
begin

section \<open>Flow statistics: \<open>CheckMetrics\<close> of \<open>qos-implementation.cc\<close>\<close>

subsection \<open>Data\<close>

text \<open>
  \<open>CheckMetrics\<close> walks the flow monitor's \<open>std::map<FlowId, FlowStats>\<close> in key order and
  asks the classifier for the five-tuple of every flow. One entry of that walk is a
  \<open>FlowRecord\<close>: the source port of the five-tuple (\<open>uint16_t\<close>) and the four fields of
  \<open>FlowStats\<close> the function reads. The packet counters are \<open>uint32_t\<close>; \<open>delaySum\<close> and
  \<open>jitterSum\<close> hold what \<open>GetSeconds()\<close> returns, a finite number of seconds.
\<close>

record FlowRecord =
  sourcePort :: "16 word"
  txPackets :: "32 word"
  rxPackets :: "32 word"
  delaySum :: real
  jitterSum :: real

text \<open>
  The seven \<open>double\<close> accumulators of the function. A counter is converted to \<open>double\<close>
  before it is added, so nothing wraps around. The sums are modelled by exact real
  arithmetic: the rounding of binary64 is not modelled.
\<close>

record Totals =
  totalTxVoIP :: real
  totalRxVoIP :: real
  totalDelayVoIP :: real
  totalJitterVoIP :: real
  totalTxFTP :: real
  totalRxFTP :: real
  totalDelayFTP :: real

text \<open>
  A quotient of two \<open>double\<close>s does not trap in C++: a zero divisor gives an infinity or
  a NaN. The result of a division is therefore a \<open>double\<close> in the sense below. The zero
  divisors of this program are sums of non-negative counts starting from \<open>+0.0\<close>, so a
  negative zero does not arise and is not modelled.
\<close>

datatype double = Finite real | PosInf | NegInf | NaN

definition ddiv :: "real \<Rightarrow> real \<Rightarrow> double" where
  "ddiv a b =
     (if b \<noteq> 0 then Finite (a / b)
      else if 0 < a then PosInf
      else if a < 0 then NegInf
      else NaN)"

fun dmul :: "double \<Rightarrow> real \<Rightarrow> double" where
  "dmul (Finite x) c = Finite (x * c)"
| "dmul PosInf c = (if 0 < c then PosInf else if c < 0 then NegInf else NaN)"
| "dmul NegInf c = (if 0 < c then NegInf else if c < 0 then PosInf else NaN)"
| "dmul NaN c = NaN"

fun is_negative :: "double \<Rightarrow> bool" where
  "is_negative (Finite x) = (x < 0)"
| "is_negative NegInf = True"
| "is_negative PosInf = False"
| "is_negative NaN = False"

text \<open>
  What the function writes to \<open>std::cout\<close>, line by line: the banner, the heading of a
  class, and a labelled value. The formatting of a value (\<open>std::fixed\<close>, two decimals) is
  not modelled; a line carries the value handed to the stream.
\<close>

datatype label = PacketLoss | AvgLatency | AvgJitter | Throughput

datatype report_line = Banner | VoIPHeading | FTPHeading | Metric label double

definition SIMULATION_TIME :: real where
  "SIMULATION_TIME = 15"

subsection \<open>The function\<close>

text \<open>The body of the loop: one flow, classified by its source port (9 = VoIP, 10 = FTP).\<close>

definition accumulate_flow :: "Totals \<Rightarrow> FlowRecord \<Rightarrow> Totals" where
  "accumulate_flow t i =
     (if sourcePort i = 9 then
        t\<lparr>totalTxVoIP := totalTxVoIP t + real (unat (txPackets i)),
          totalRxVoIP := totalRxVoIP t + real (unat (rxPackets i)),
          totalDelayVoIP := totalDelayVoIP t + delaySum i,
          totalJitterVoIP := totalJitterVoIP t + jitterSum i\<rparr>
      else if sourcePort i = 10 then
        t\<lparr>totalTxFTP := totalTxFTP t + real (unat (txPackets i)),
          totalRxFTP := totalRxFTP t + real (unat (rxPackets i)),
          totalDelayFTP := totalDelayFTP t + delaySum i\<rparr>
      else t)"

fun accumulate :: "Totals \<Rightarrow> FlowRecord list \<Rightarrow> Totals" where
  "accumulate t [] = t"
| "accumulate t (i # stats) = accumulate (accumulate_flow t i) stats"

definition zero_totals :: Totals where
  "zero_totals =
     \<lparr>totalTxVoIP = 0, totalRxVoIP = 0, totalDelayVoIP = 0, totalJitterVoIP = 0,
      totalTxFTP = 0, totalRxFTP = 0, totalDelayFTP = 0\<rparr>"

text \<open>The block \<open>Metrics for VoIP\<close>: nothing is printed unless \<open>totalRxVoIP > 0\<close>.\<close>

definition voip_metrics :: "Totals \<Rightarrow> report_line list" where
  "voip_metrics t =
     (if 0 < totalRxVoIP t then
        (let lossVoIP = dmul (ddiv (totalTxVoIP t - totalRxVoIP t) (totalTxVoIP t)) 100;
             avgDelayVoIP = dmul (ddiv (totalDelayVoIP t) (totalRxVoIP t)) 1000;
             avgJitterVoIP = dmul (ddiv (totalJitterVoIP t) (totalRxVoIP t)) 1000
         in [VoIPHeading, Metric PacketLoss lossVoIP, Metric AvgLatency avgDelayVoIP,
             Metric AvgJitter avgJitterVoIP])
      else [])"

text \<open>The block \<open>Metrics for FTP\<close>: nothing is printed unless \<open>totalRxFTP > 0\<close>.\<close>

definition ftp_metrics :: "Totals \<Rightarrow> report_line list" where
  "ftp_metrics t =
     (if 0 < totalRxFTP t then
        (let lossFTP = dmul (ddiv (totalTxFTP t - totalRxFTP t) (totalTxFTP t)) 100;
             throughputFTP =
               ddiv (totalRxFTP t * 1500 * 8) ((SIMULATION_TIME - 3) * 1000000);
             avgDelayFTP = dmul (ddiv (totalDelayFTP t) (totalRxFTP t)) 1000
         in [FTPHeading, Metric PacketLoss lossFTP, Metric AvgLatency avgDelayFTP,
             Metric Throughput throughputFTP])
      else [])"

definition CheckMetrics :: "FlowRecord list \<Rightarrow> report_line list" where
  "CheckMetrics stats =
     (let t = accumulate zero_totals stats
      in Banner # voip_metrics t @ ftp_metrics t)"

subsection \<open>The totals of a class, in the words of the specification\<close>

text \<open>
  The specification speaks of the transmitted, received, delay and jitter totals of a
  class. They are the sums over the records whose class hint is the port of the class.
\<close>

definition class_total :: "(FlowRecord \<Rightarrow> real) \<Rightarrow> 16 word \<Rightarrow> FlowRecord list \<Rightarrow> real" where
  "class_total f port stats = sum_list (map f (filter (\<lambda>i. sourcePort i = port) stats))"

definition transmitted :: "FlowRecord \<Rightarrow> real" where
  "transmitted i = real (unat (txPackets i))"

definition received :: "FlowRecord \<Rightarrow> real" where
  "received i = real (unat (rxPackets i))"

text \<open>
  The two parameters of the specification's throughput formula. The function has no such
  parameters: the packet size is the literal \<open>1500.0\<close> and the window is
  \<open>SIMULATION_TIME - 3.0\<close>.
\<close>

definition assumedPacketSizeBytes :: real where
  "assumedPacketSizeBytes = 1500"

definition observationWindowSeconds :: real where
  "observationWindowSeconds = SIMULATION_TIME - 3"

section \<open>Policy-based routing: \<open>PbrRouting\<close> of \<open>pbr-simulation-complete.cc\<close>\<close>

subsection \<open>Data\<close>

text \<open>
  The objects of the simulation framework that the routing protocol touches. An address is
  32 bits. A packet, a device, a callback and a socket error are opaque to \<open>PbrRouting\<close>,
  which only passes them on: a packet is its bytes, the others are identities. A
  \<open>Ptr<NetDevice>\<close> and a \<open>Ptr<Ipv4Route>\<close> may be null, which is \<open>None\<close>.
\<close>

type_synonym Ipv4Address = "32 word"
type_synonym Packet = "8 word list"
type_synonym NetDevice = nat
type_synonym Callback = nat
type_synonym SocketErrno = nat

text \<open>The header, by its getters. \<open>RouteOutput\<close> reads the first and the third.\<close>

record Ipv4Header =
  GetDscp :: "8 word"
  GetSource :: Ipv4Address
  GetDestination :: Ipv4Address
  GetTtl :: "8 word"
  GetProtocol :: "8 word"

record Ipv4Route =
  Destination :: Ipv4Address
  Source :: Ipv4Address
  Gateway :: Ipv4Address
  OutputDevice :: "NetDevice option"

text \<open>
  A routing protocol other than \<open>PbrRouting\<close>, seen from outside: what its \<open>RouteOutput\<close>
  returns and leaves in the \<open>sockerr\<close> out-parameter, and what its \<open>RouteInput\<close> returns.
  Both are assumed to return.
\<close>

record RoutingProvider =
  provRouteOutput :: "Packet \<Rightarrow> Ipv4Header \<Rightarrow> NetDevice option \<Rightarrow> SocketErrno
                        \<Rightarrow> Ipv4Route option \<times> SocketErrno"
  provRouteInput :: "Packet \<Rightarrow> Ipv4Header \<Rightarrow> NetDevice option
                        \<Rightarrow> Callback \<Rightarrow> Callback \<Rightarrow> Callback \<Rightarrow> Callback \<Rightarrow> bool"

text \<open>
  The routing protocol registered on the node's \<open>Ipv4\<close> object is a pointer. It is either
  the \<open>PbrRouting\<close> object that holds this \<open>Ipv4\<close> in \<open>m_ipv4\<close>, or another protocol.
  \<open>main\<close> registers the former: \<open>ipv4Router->SetRoutingProtocol(pbr)\<close>.
\<close>

datatype RoutingProtocolPtr = ThisPbrRouting | OtherProtocol RoutingProvider

text \<open>
  The \<open>Ipv4\<close> object, by the three calls made on it: \<open>GetAddress(i, 0).GetLocal()\<close>,
  \<open>GetNetDevice(i)\<close> and \<open>GetRoutingProtocol()\<close>. The first two are taken as total: an
  interface index the node does not have is outside the model.
\<close>

record Ipv4 =
  GetLocal :: "32 word \<Rightarrow> Ipv4Address"
  GetNetDevice :: "32 word \<Rightarrow> NetDevice option"
  GetRoutingProtocol :: RoutingProtocolPtr

definition SetRoutingProtocol :: "Ipv4 \<Rightarrow> RoutingProtocolPtr \<Rightarrow> Ipv4" where
  "SetRoutingProtocol ipv4 routingProtocol = ipv4\<lparr>GetRoutingProtocol := routingProtocol\<rparr>"

text \<open>The members of \<open>PbrRouting\<close>, after \<open>SetIpv4\<close> has set \<open>m_ipv4\<close>.\<close>

record PbrRouting =
  m_ipv4 :: Ipv4
  m_videoNextHop :: Ipv4Address
  m_dataNextHop :: Ipv4Address
  m_videoIfIndex :: "32 word"
  m_dataIfIndex :: "32 word"

definition DSCP_VIDEO_EF :: "8 word" where
  "DSCP_VIDEO_EF = 0x2e"

definition DSCP_DATA_BE :: "8 word" where
  "DSCP_DATA_BE = 0x00"

subsection \<open>The two operations\<close>

text \<open>
  The result of \<open>RouteOutput\<close> is the returned pointer together with the value of the
  \<open>sockerr\<close> out-parameter at return. The last statement is a virtual call on the
  registered protocol: when that is this object, the call is \<open>PbrRouting::RouteOutput\<close>
  on the same arguments. A call that does not return is \<open>None\<close>. The log lines are not
  modelled.
\<close>

partial_function (option) RouteOutput ::
  "PbrRouting \<Rightarrow> Packet \<Rightarrow> Ipv4Header \<Rightarrow> NetDevice option \<Rightarrow> SocketErrno
     \<Rightarrow> (Ipv4Route option \<times> SocketErrno) option" where
  "RouteOutput this p header oif sockerr =
     (let dscp = GetDscp header in
      if dscp = DSCP_VIDEO_EF then
        Some (Some \<lparr>Destination = GetDestination header,
                    Source = GetLocal (m_ipv4 this) (m_videoIfIndex this),
                    Gateway = m_videoNextHop this,
                    OutputDevice = GetNetDevice (m_ipv4 this) (m_videoIfIndex this)\<rparr>,
              sockerr)
      else if dscp = DSCP_DATA_BE then
        Some (Some \<lparr>Destination = GetDestination header,
                    Source = GetLocal (m_ipv4 this) (m_dataIfIndex this),
                    Gateway = m_dataNextHop this,
                    OutputDevice = GetNetDevice (m_ipv4 this) (m_dataIfIndex this)\<rparr>,
              sockerr)
      else
        (case GetRoutingProtocol (m_ipv4 this) of
           ThisPbrRouting \<Rightarrow> RouteOutput this p header oif sockerr
         | OtherProtocol prov \<Rightarrow> Some (provRouteOutput prov p header oif sockerr)))"

partial_function (option) RouteInput ::
  "PbrRouting \<Rightarrow> Packet \<Rightarrow> Ipv4Header \<Rightarrow> NetDevice option
     \<Rightarrow> Callback \<Rightarrow> Callback \<Rightarrow> Callback \<Rightarrow> Callback \<Rightarrow> bool option" where
  "RouteInput this p header idev ucb mcb lcb ecb =
     (case GetRoutingProtocol (m_ipv4 this) of
        ThisPbrRouting \<Rightarrow> RouteInput this p header idev ucb mcb lcb ecb
      | OtherProtocol prov \<Rightarrow> Some (provRouteInput prov p header idev ucb mcb lcb ecb))"

subsection \<open>The router that \<open>main\<close> builds\<close>

text \<open>
  The router has the interfaces 1, 2 and 3 (and the loopback, 0) with the addresses
  10.0.1.2, 10.0.2.1 and 10.0.3.1; a device is named by its interface index.
  \<open>InternetStackHelper\<close> registers a protocol of the framework, \<open>stack\<close>, which
  \<open>SetRoutingProtocol(pbr)\<close> then replaces by the \<open>PbrRouting\<close> object itself.
\<close>

definition installed_ipv4 :: "RoutingProvider \<Rightarrow> Ipv4" where
  "installed_ipv4 stack =
     \<lparr>GetLocal = (\<lambda>i. if i = 1 then 0x0A000102 else if i = 2 then 0x0A000201
                     else if i = 3 then 0x0A000301 else 0x7F000001),
      GetNetDevice = (\<lambda>i. Some (unat i)),
      GetRoutingProtocol = OtherProtocol stack\<rparr>"

definition ipv4Router :: "RoutingProvider \<Rightarrow> Ipv4" where
  "ipv4Router stack = SetRoutingProtocol (installed_ipv4 stack) ThisPbrRouting"

definition pbr :: "RoutingProvider \<Rightarrow> PbrRouting" where
  "pbr stack =
     \<lparr>m_ipv4 = ipv4Router stack,
      m_videoNextHop = 0x0A000202,
      m_dataNextHop = 0x0A000302,
      m_videoIfIndex = 2,
      m_dataIfIndex = 3\<rparr>"

text \<open>
  The same object on a node that keeps another protocol registered: the configuration in
  which the last statement of \<open>RouteOutput\<close> reaches a protocol below.
\<close>

definition pbr_over :: "RoutingProvider \<Rightarrow> PbrRouting" where
  "pbr_over stack = (pbr stack)\<lparr>m_ipv4 := installed_ipv4 stack\<rparr>"

text \<open>
  Two providers for concrete runs: one finds no route, sets \<open>sockerr\<close> and refuses every
  inbound packet; the other returns a fixed route and accepts every inbound packet.
\<close>

definition no_route_provider :: RoutingProvider where
  "no_route_provider =
     \<lparr>provRouteOutput = (\<lambda>p header oif sockerr. (None, 10)),
      provRouteInput = (\<lambda>p header idev ucb mcb lcb ecb. False)\<rparr>"

definition fixed_route_provider :: RoutingProvider where
  "fixed_route_provider =
     \<lparr>provRouteOutput = (\<lambda>p header oif sockerr.
        (Some \<lparr>Destination = GetDestination header, Source = 0x0A000101,
               Gateway = 0x0A000103, OutputDevice = oif\<rparr>, sockerr)),
      provRouteInput = (\<lambda>p header idev ucb mcb lcb ecb. True)\<rparr>"

section \<open>Concrete inputs\<close>

text \<open>Flow tables on which the properties below are run.\<close>

definition lost_flows :: "FlowRecord list" where
  "lost_flows =
     [\<lparr>sourcePort = 9, txPackets = 100, rxPackets = 0, delaySum = 0, jitterSum = 0\<rparr>,
      \<lparr>sourcePort = 10, txPackets = 0, rxPackets = 0, delaySum = 0, jitterSum = 0\<rparr>]"

definition untransmitted_flows :: "FlowRecord list" where
  "untransmitted_flows =
     [\<lparr>sourcePort = 9, txPackets = 0, rxPackets = 5, delaySum = 0, jitterSum = 0\<rparr>,
      \<lparr>sourcePort = 10, txPackets = 0, rxPackets = 5, delaySum = 0, jitterSum = 0\<rparr>]"

definition reordered_flows :: "FlowRecord list" where
  "reordered_flows =
     [\<lparr>sourcePort = 9, txPackets = 50, rxPackets = 60, delaySum = 0, jitterSum = 0\<rparr>,
      \<lparr>sourcePort = 10, txPackets = 50, rxPackets = 60, delaySum = 0, jitterSum = 0\<rparr>]"

definition background_flow :: FlowRecord where
  "background_flow =
     \<lparr>sourcePort = 49153, txPackets = 7, rxPackets = 7, delaySum = 1, jitterSum = 1\<rparr>"

definition sample_flows :: "FlowRecord list" where
  "sample_flows =
     [\<lparr>sourcePort = 9, txPackets = 100, rxPackets = 100, delaySum = 2, jitterSum = 1 / 2\<rparr>,
      \<lparr>sourcePort = 10, txPackets = 1000, rxPackets = 800, delaySum = 40, jitterSum = 3\<rparr>]"

text \<open>The same flow table with other jitter sums on the FTP flows.\<close>

definition with_ftp_jitter :: "(FlowRecord \<Rightarrow> real) \<Rightarrow> FlowRecord \<Rightarrow> FlowRecord" where
  "with_ftp_jitter j i = (if sourcePort i = 10 then i\<lparr>jitterSum := j i\<rparr> else i)"

text \<open>Headers marked expedited forwarding, best effort and AF11.\<close>

definition ef_header :: Ipv4Header where
  "ef_header = \<lparr>GetDscp = 0x2e, GetSource = 0x0A000101, GetDestination = 0x0A000202,
                 GetTtl = 64, GetProtocol = 17\<rparr>"

definition be_header :: Ipv4Header where
  "be_header = \<lparr>GetDscp = 0x00, GetSource = 0x0A000101, GetDestination = 0x0A000302,
                 GetTtl = 64, GetProtocol = 17\<rparr>"

definition af_header :: Ipv4Header where
  "af_header = \<lparr>GetDscp = 0x0a, GetSource = 0x0A000101, GetDestination = 0x0A000202,
                 GetTtl = 64, GetProtocol = 17\<rparr>"

section \<open>Properties of the flow statistics\<close>

subsection \<open>The accumulators are the totals of the classes\<close>

lemma accumulate_VoIP:
  "totalTxVoIP (accumulate t stats) = totalTxVoIP t + class_total transmitted 9 stats"
  "totalRxVoIP (accumulate t stats) = totalRxVoIP t + class_total received 9 stats"
  "totalDelayVoIP (accumulate t stats) = totalDelayVoIP t + class_total delaySum 9 stats"
  "totalJitterVoIP (accumulate t stats) = totalJitterVoIP t + class_total jitterSum 9 stats"
  by (induction stats arbitrary: t;
      simp add: accumulate_flow_def class_total_def transmitted_def received_def)+

lemma accumulate_FTP:
  "totalTxFTP (accumulate t stats) = totalTxFTP t + class_total transmitted 10 stats"
  "totalRxFTP (accumulate t stats) = totalRxFTP t + class_total received 10 stats"
  "totalDelayFTP (accumulate t stats) = totalDelayFTP t + class_total delaySum 10 stats"
  by (induction stats arbitrary: t;
      simp add: accumulate_flow_def class_total_def transmitted_def received_def)+

lemma totals_VoIP:
  "totalTxVoIP (accumulate zero_totals stats) = class_total transmitted 9 stats"
  "totalRxVoIP (accumulate zero_totals stats) = class_total received 9 stats"
  "totalDelayVoIP (accumulate zero_totals stats) = class_total delaySum 9 stats"
  "totalJitterVoIP (accumulate zero_totals stats) = class_total jitterSum 9 stats"
  by (simp_all add: accumulate_VoIP zero_totals_def)

lemma totals_FTP:
  "totalTxFTP (accumulate zero_totals stats) = class_total transmitted 10 stats"
  "totalRxFTP (accumulate zero_totals stats) = class_total received 10 stats"
  "totalDelayFTP (accumulate zero_totals stats) = class_total delaySum 10 stats"
  by (simp_all add: accumulate_FTP zero_totals_def)

lemma unsigned_real_nonneg: "0 \<le> (unsigned w :: real)"
  by (metis of_nat_unat of_nat_0_le_iff)

lemma class_total_received_nonneg: "0 \<le> class_total received port stats"
  by (auto simp: class_total_def received_def unsigned_real_nonneg intro!: sum_list_nonneg)

lemma class_total_transmitted_nonneg: "0 \<le> class_total transmitted port stats"
  by (auto simp: class_total_def transmitted_def unsigned_real_nonneg intro!: sum_list_nonneg)

lemma set_CheckMetrics:
  "set (CheckMetrics stats) =
     {Banner} \<union> set (voip_metrics (accumulate zero_totals stats))
              \<union> set (ftp_metrics (accumulate zero_totals stats))"
  by (simp add: CheckMetrics_def Let_def)

lemma VoIPHeading_notin_ftp: "VoIPHeading \<notin> set (ftp_metrics t)"
  by (simp add: ftp_metrics_def Let_def)

lemma FTPHeading_notin_voip: "FTPHeading \<notin> set (voip_metrics t)"
  by (simp add: voip_metrics_def Let_def)

lemma lost_totals:
  "class_total received 9 lost_flows = 0" "class_total received 10 lost_flows = 0"
  by (simp_all add: class_total_def received_def lost_flows_def)

lemma untransmitted_totals:
  "class_total transmitted 9 untransmitted_flows = 0"
  "class_total received 9 untransmitted_flows = 5"
  "class_total delaySum 9 untransmitted_flows = 0"
  "class_total jitterSum 9 untransmitted_flows = 0"
  "class_total transmitted 10 untransmitted_flows = 0"
  "class_total received 10 untransmitted_flows = 5"
  "class_total delaySum 10 untransmitted_flows = 0"
  by (simp_all add: class_total_def transmitted_def received_def untransmitted_flows_def)

lemma reordered_totals:
  "class_total transmitted 9 reordered_flows = 50"
  "class_total received 9 reordered_flows = 60"
  "class_total delaySum 9 reordered_flows = 0"
  "class_total jitterSum 9 reordered_flows = 0"
  "class_total transmitted 10 reordered_flows = 50"
  "class_total received 10 reordered_flows = 60"
  "class_total delaySum 10 reordered_flows = 0"
  by (simp_all add: class_total_def transmitted_def received_def reordered_flows_def)

lemma sample_totals:
  "class_total transmitted 9 sample_flows = 100"
  "class_total received 9 sample_flows = 100"
  "class_total delaySum 9 sample_flows = 2"
  "class_total jitterSum 9 sample_flows = 1 / 2"
  "class_total transmitted 10 sample_flows = 1000"
  "class_total received 10 sample_flows = 800"
  "class_total delaySum 10 sample_flows = 40"
  by (simp_all add: class_total_def transmitted_def received_def sample_flows_def)

subsection \<open>Which classes are reported\<close>

text \<open>
  C4. A class whose received total is zero is left out of the report altogether: its
  block is empty and its heading does not occur in the output, so it is not shown with a
  loss of 100 percent. When both classes received nothing, as with the totals
  \<open>{transmitted = 0, received = 0}\<close>, the output is the banner alone: no quotient is
  computed.
\<close>

theorem zero_received_omitted:
  "(class_total received 9 stats = 0 \<longrightarrow>
      voip_metrics (accumulate zero_totals stats) = [] \<and>
      VoIPHeading \<notin> set (CheckMetrics stats)) \<and>
   (class_total received 10 stats = 0 \<longrightarrow>
      ftp_metrics (accumulate zero_totals stats) = [] \<and>
      FTPHeading \<notin> set (CheckMetrics stats)) \<and>
   (class_total received 9 stats = 0 \<and> class_total received 10 stats = 0 \<longrightarrow>
      CheckMetrics stats = [Banner])"
proof -
  have v: "voip_metrics (accumulate zero_totals stats) = []"
    if "class_total received 9 stats = 0"
    using that by (simp add: voip_metrics_def totals_VoIP)
  have f: "ftp_metrics (accumulate zero_totals stats) = []"
    if "class_total received 10 stats = 0"
    using that by (simp add: ftp_metrics_def totals_FTP)
  show ?thesis
    using v f
    by (auto simp: set_CheckMetrics VoIPHeading_notin_ftp FTPHeading_notin_voip
                   CheckMetrics_def Let_def)
qed

theorem zero_received_omitted_witness:
  "class_total received 9 lost_flows = 0 \<and> class_total received 10 lost_flows = 0 \<and>
   voip_metrics (accumulate zero_totals lost_flows) = [] \<and>
   ftp_metrics (accumulate zero_totals lost_flows) = [] \<and>
   VoIPHeading \<notin> set (CheckMetrics lost_flows) \<and>
   FTPHeading \<notin> set (CheckMetrics lost_flows) \<and>
   CheckMetrics lost_flows = [Banner]"
  using zero_received_omitted [of lost_flows] lost_totals by simp

text \<open>
  C2, as stated, fails. The guard of a block is on the received total, not on the
  transmitted one: with nothing transmitted and five packets received, both classes are
  reported, and the loss is the quotient of \<open>-5\<close> by zero, minus infinity.
\<close>

theorem zero_transmitted_counterexample:
  "class_total transmitted 9 untransmitted_flows = 0 \<and>
   class_total transmitted 10 untransmitted_flows = 0 \<and>
   CheckMetrics untransmitted_flows =
     [Banner,
      VoIPHeading, Metric PacketLoss NegInf, Metric AvgLatency (Finite 0),
      Metric AvgJitter (Finite 0),
      FTPHeading, Metric PacketLoss NegInf, Metric AvgLatency (Finite 0),
      Metric Throughput (Finite (1 / 200))]"
  by (simp add: CheckMetrics_def Let_def voip_metrics_def ftp_metrics_def totals_VoIP
        totals_FTP untransmitted_totals ddiv_def SIMULATION_TIME_def)

text \<open>
  C2, amended. A class is left out of the report exactly when its received total is zero.
  A transmitted total of zero does not by itself leave the class out: when the class has
  received packets, it is reported, the loss quotient is taken with the zero divisor and
  the reported loss is minus infinity.
\<close>

theorem omitted_iff_nothing_received:
  "(voip_metrics (accumulate zero_totals stats) = [] \<longleftrightarrow>
      class_total received 9 stats = 0) \<and>
   (ftp_metrics (accumulate zero_totals stats) = [] \<longleftrightarrow>
      class_total received 10 stats = 0) \<and>
   (class_total transmitted 9 stats = 0 \<and> 0 < class_total received 9 stats \<longrightarrow>
      Metric PacketLoss NegInf \<in> set (voip_metrics (accumulate zero_totals stats))) \<and>
   (class_total transmitted 10 stats = 0 \<and> 0 < class_total received 10 stats \<longrightarrow>
      Metric PacketLoss NegInf \<in> set (ftp_metrics (accumulate zero_totals stats)))"
proof -
  have "voip_metrics (accumulate zero_totals stats) = [] \<longleftrightarrow>
          class_total received 9 stats = 0"
    using class_total_received_nonneg [of 9 stats]
    by (auto simp: voip_metrics_def Let_def totals_VoIP)
  moreover have "ftp_metrics (accumulate zero_totals stats) = [] \<longleftrightarrow>
          class_total received 10 stats = 0"
    using class_total_received_nonneg [of 10 stats]
    by (auto simp: ftp_metrics_def Let_def totals_FTP)
  moreover have "Metric PacketLoss NegInf \<in> set (voip_metrics (accumulate zero_totals stats))"
    if "class_total transmitted 9 stats = 0" "0 < class_total received 9 stats"
    using that by (simp add: voip_metrics_def Let_def totals_VoIP ddiv_def)
  moreover have "Metric PacketLoss NegInf \<in> set (ftp_metrics (accumulate zero_totals stats))"
    if "class_total transmitted 10 stats = 0" "0 < class_total received 10 stats"
    using that by (simp add: ftp_metrics_def Let_def totals_FTP ddiv_def)
  ultimately show ?thesis by blast
qed

theorem omitted_iff_nothing_received_witness:
  "class_total transmitted 9 untransmitted_flows = 0 \<and>
   0 < class_total received 9 untransmitted_flows \<and>
   class_total transmitted 10 untransmitted_flows = 0 \<and>
   0 < class_total received 10 untransmitted_flows \<and>
   voip_metrics (accumulate zero_totals untransmitted_flows) \<noteq> [] \<and>
   ftp_metrics (accumulate zero_totals untransmitted_flows) \<noteq> [] \<and>
   Metric PacketLoss NegInf \<in> set (voip_metrics (accumulate zero_totals untransmitted_flows)) \<and>
   Metric PacketLoss NegInf \<in> set (ftp_metrics (accumulate zero_totals untransmitted_flows))"
  using omitted_iff_nothing_received [of untransmitted_flows] untransmitted_totals by simp

subsection \<open>Loss when more was received than transmitted\<close>

text \<open>
  C3, as stated, fails. Nothing clamps the loss: with 50 packets transmitted and 60
  received, both classes are reported with a loss of \<open>-20\<close> percent.
\<close>

theorem unclamped_loss_counterexample:
  "class_total transmitted 9 reordered_flows < class_total received 9 reordered_flows \<and>
   class_total transmitted 10 reordered_flows < class_total received 10 reordered_flows \<and>
   CheckMetrics reordered_flows =
     [Banner,
      VoIPHeading, Metric PacketLoss (Finite (- 20)), Metric AvgLatency (Finite 0),
      Metric AvgJitter (Finite 0),
      FTPHeading, Metric PacketLoss (Finite (- 20)), Metric AvgLatency (Finite 0),
      Metric Throughput (Finite (3 / 50))]"
  by (simp add: CheckMetrics_def Let_def voip_metrics_def ftp_metrics_def totals_VoIP
        totals_FTP reordered_totals ddiv_def SIMULATION_TIME_def)

lemma loss_negative:
  assumes "tx < rx" "0 \<le> tx"
  shows "is_negative (dmul (ddiv (tx - rx) tx) 100)"
proof (cases "tx = 0")
  case True
  with assms show ?thesis by (simp add: ddiv_def)
next
  case False
  with assms have "0 < tx" by simp
  with assms have "(tx - rx) / tx < 0" by (simp add: divide_neg_pos)
  then have "(tx - rx) / tx * 100 < 0" by (rule mult_neg_pos) simp
  with False show ?thesis by (simp add: ddiv_def)
qed

text \<open>
  C3, amended. When the received total of a class exceeds its transmitted total, the
  class is reported and its loss is the unclamped value
  \<open>(transmitted - received) / transmitted * 100\<close>, which is negative (minus infinity when
  nothing was transmitted). The function returns its report all the same.
\<close>

theorem excess_received_loss_negative:
  "(class_total transmitted 9 stats < class_total received 9 stats \<longrightarrow>
      (\<exists>loss. Metric PacketLoss loss \<in> set (voip_metrics (accumulate zero_totals stats)) \<and>
         loss = dmul (ddiv (class_total transmitted 9 stats - class_total received 9 stats)
                           (class_total transmitted 9 stats)) 100 \<and>
         is_negative loss)) \<and>
   (class_total transmitted 10 stats < class_total received 10 stats \<longrightarrow>
      (\<exists>loss. Metric PacketLoss loss \<in> set (ftp_metrics (accumulate zero_totals stats)) \<and>
         loss = dmul (ddiv (class_total transmitted 10 stats - class_total received 10 stats)
                           (class_total transmitted 10 stats)) 100 \<and>
         is_negative loss))"
proof -
  have pos: "0 < class_total received port stats"
    if "class_total transmitted port stats < class_total received port stats" for port
    using that class_total_transmitted_nonneg [of port stats] by simp
  show ?thesis
    using pos [of 9] pos [of 10]
      loss_negative [OF _ class_total_transmitted_nonneg, of 9 stats "class_total received 9 stats"]
      loss_negative [OF _ class_total_transmitted_nonneg, of 10 stats "class_total received 10 stats"]
    by (simp add: voip_metrics_def ftp_metrics_def Let_def totals_VoIP totals_FTP)
qed

theorem excess_received_loss_negative_witness:
  "class_total transmitted 9 reordered_flows < class_total received 9 reordered_flows \<and>
   class_total transmitted 10 reordered_flows < class_total received 10 reordered_flows \<and>
   Metric PacketLoss (Finite (- 20)) \<in> set (voip_metrics (accumulate zero_totals reordered_flows)) \<and>
   Metric PacketLoss (Finite (- 20)) \<in> set (ftp_metrics (accumulate zero_totals reordered_flows)) \<and>
   is_negative (Finite (- 20))"
  using excess_received_loss_negative [of reordered_flows] reordered_totals
  by (simp add: ddiv_def)

subsection \<open>The derived metrics\<close>

text \<open>
  C6, as stated, fails for the throughput. A class can be in the report with no
  throughput line at all: on the sample table the VoIP class is reported with loss,
  latency and jitter only, and the one throughput line of the report is that of FTP. The
  value the formula would give for VoIP, \<open>100 * 1500 * 8 / (12 * 1000000)\<close>, is printed
  nowhere.
\<close>

theorem voip_throughput_counterexample:
  "0 < class_total received 9 sample_flows \<and>
   CheckMetrics sample_flows =
     [Banner,
      VoIPHeading, Metric PacketLoss (Finite 0), Metric AvgLatency (Finite 20),
      Metric AvgJitter (Finite 5),
      FTPHeading, Metric PacketLoss (Finite 20), Metric AvgLatency (Finite 50),
      Metric Throughput (Finite (4 / 5))] \<and>
   Metric Throughput (Finite (100 * 1500 * 8 / (12 * 1000000)))
     \<notin> set (CheckMetrics sample_flows)"
  by (simp add: CheckMetrics_def Let_def voip_metrics_def ftp_metrics_def totals_VoIP
        totals_FTP sample_totals ddiv_def SIMULATION_TIME_def)

text \<open>
  C6, amended. For a class that is reported, the average delay is
  \<open>cumulativeDelay / received * 1000\<close>. The average jitter,
  \<open>cumulativeJitter / received * 1000\<close>, is reported for VoIP only, the class whose jitter
  is tracked. The throughput is reported for FTP only and is
  \<open>received * assumedPacketSizeBytes * 8 / (observationWindowSeconds * 1000000)\<close> with a
  packet size of 1500 bytes and the window of 12 seconds that the function hard-codes.
  The VoIP block has no throughput line and the FTP block no jitter line. The totals are
  those of the records of the class.
\<close>

theorem derived_metrics_formulas:
  "(0 < class_total received 9 stats \<longrightarrow>
      voip_metrics (accumulate zero_totals stats) =
        [VoIPHeading,
         Metric PacketLoss
           (dmul (ddiv (class_total transmitted 9 stats - class_total received 9 stats)
                       (class_total transmitted 9 stats)) 100),
         Metric AvgLatency
           (Finite (class_total delaySum 9 stats / class_total received 9 stats * 1000)),
         Metric AvgJitter
           (Finite (class_total jitterSum 9 stats / class_total received 9 stats * 1000))]) \<and>
   (0 < class_total received 10 stats \<longrightarrow>
      ftp_metrics (accumulate zero_totals stats) =
        [FTPHeading,
         Metric PacketLoss
           (dmul (ddiv (class_total transmitted 10 stats - class_total received 10 stats)
                       (class_total transmitted 10 stats)) 100),
         Metric AvgLatency
           (Finite (class_total delaySum 10 stats / class_total received 10 stats * 1000)),
         Metric Throughput
           (Finite (class_total received 10 stats * assumedPacketSizeBytes * 8 /
                    (observationWindowSeconds * 1000000)))]) \<and>
   Metric Throughput v \<notin> set (voip_metrics (accumulate zero_totals stats)) \<and>
   Metric AvgJitter v \<notin> set (ftp_metrics (accumulate zero_totals stats)) \<and>
   assumedPacketSizeBytes = 1500 \<and> observationWindowSeconds = 12"
  by (simp add: voip_metrics_def ftp_metrics_def Let_def totals_VoIP totals_FTP ddiv_def
        assumedPacketSizeBytes_def observationWindowSeconds_def SIMULATION_TIME_def)

theorem derived_metrics_formulas_witness:
  "0 < class_total received 9 sample_flows \<and> 0 < class_total received 10 sample_flows \<and>
   voip_metrics (accumulate zero_totals sample_flows) =
     [VoIPHeading, Metric PacketLoss (Finite 0), Metric AvgLatency (Finite 20),
      Metric AvgJitter (Finite 5)] \<and>
   ftp_metrics (accumulate zero_totals sample_flows) =
     [FTPHeading, Metric PacketLoss (Finite 20), Metric AvgLatency (Finite 50),
      Metric Throughput (Finite (4 / 5))] \<and>
   Metric Throughput (Finite (1 / 10))
     \<notin> set (voip_metrics (accumulate zero_totals sample_flows)) \<and>
   Metric AvgJitter (Finite (1 / 10))
     \<notin> set (ftp_metrics (accumulate zero_totals sample_flows))"
proof -
  have rx: "0 < class_total received 9 sample_flows" "0 < class_total received 10 sample_flows"
    by (simp_all add: sample_totals)
  note run = derived_metrics_formulas [of sample_flows "Finite (1 / 10)"]
  from run rx have voip:
    "voip_metrics (accumulate zero_totals sample_flows) =
       [VoIPHeading, Metric PacketLoss (Finite 0), Metric AvgLatency (Finite 20),
        Metric AvgJitter (Finite 5)]"
    by (simp add: sample_totals ddiv_def)
  from run rx have ftp:
    "ftp_metrics (accumulate zero_totals sample_flows) =
       [FTPHeading, Metric PacketLoss (Finite 20), Metric AvgLatency (Finite 50),
        Metric Throughput (Finite (4 / 5))]"
    by (simp add: sample_totals ddiv_def assumedPacketSizeBytes_def
          observationWindowSeconds_def SIMULATION_TIME_def)
  from run have none:
    "Metric Throughput (Finite (1 / 10))
       \<notin> set (voip_metrics (accumulate zero_totals sample_flows))"
    "Metric AvgJitter (Finite (1 / 10))
       \<notin> set (ftp_metrics (accumulate zero_totals sample_flows))"
    by blast+
  from rx voip ftp none show ?thesis by blast
qed

subsection \<open>Flows of neither class\<close>

lemma accumulate_append: "accumulate t (xs @ ys) = accumulate (accumulate t xs) ys"
  by (induction xs arbitrary: t) simp_all

text \<open>
  C7. A flow whose source port is neither 9 nor 10 changes none of the seven accumulators,
  wherever it stands in the flow table: the totals and the report are those of the table
  without it. There is no accumulator for unclassified flows.
\<close>

theorem unmatched_record_excluded:
  "sourcePort i \<noteq> 9 \<and> sourcePort i \<noteq> 10 \<longrightarrow>
     accumulate_flow t i = t \<and>
     accumulate t (before @ i # after) = accumulate t (before @ after) \<and>
     CheckMetrics (before @ i # after) = CheckMetrics (before @ after)"
  by (simp add: accumulate_append accumulate_flow_def CheckMetrics_def)

theorem unmatched_record_excluded_witness:
  "sourcePort background_flow \<noteq> 9 \<and> sourcePort background_flow \<noteq> 10 \<and>
   accumulate_flow zero_totals background_flow = zero_totals \<and>
   accumulate zero_totals ([hd sample_flows] @ background_flow # tl sample_flows) =
     accumulate zero_totals ([hd sample_flows] @ tl sample_flows) \<and>
   CheckMetrics ([hd sample_flows] @ background_flow # tl sample_flows) =
     CheckMetrics ([hd sample_flows] @ tl sample_flows)"
  using unmatched_record_excluded
          [of background_flow zero_totals "[hd sample_flows]" "tl sample_flows"]
  by (simp add: background_flow_def)

subsection \<open>The shape of the two blocks\<close>

lemma accumulate_flow_with_ftp_jitter:
  "accumulate_flow t (with_ftp_jitter j i) = accumulate_flow t i"
  by (simp add: accumulate_flow_def with_ftp_jitter_def)

lemma accumulate_with_ftp_jitter:
  "accumulate t (map (with_ftp_jitter j) stats) = accumulate t stats"
  by (induction stats arbitrary: t) (simp_all add: accumulate_flow_with_ftp_jitter)

text \<open>
  C10. When the VoIP class has received packets, its block is its heading followed by
  loss, latency and jitter, in this order; otherwise the block is empty. When the FTP
  class has received packets, its block is its heading followed by loss, latency and
  throughput; otherwise the block is empty. No throughput line occurs in the VoIP block
  and no jitter line in the FTP block. The report is the banner and the two blocks, and it
  does not depend on the jitter sums of the FTP flows: they are never read.
\<close>

theorem summary_shapes:
  "(0 < totalRxVoIP t \<longrightarrow>
      (\<exists>loss delay jitter.
         voip_metrics t = [VoIPHeading, Metric PacketLoss loss, Metric AvgLatency delay,
                           Metric AvgJitter jitter])) \<and>
   (\<not> 0 < totalRxVoIP t \<longrightarrow> voip_metrics t = []) \<and>
   (0 < totalRxFTP t \<longrightarrow>
      (\<exists>loss delay throughput.
         ftp_metrics t = [FTPHeading, Metric PacketLoss loss, Metric AvgLatency delay,
                          Metric Throughput throughput])) \<and>
   (\<not> 0 < totalRxFTP t \<longrightarrow> ftp_metrics t = []) \<and>
   Metric Throughput v \<notin> set (voip_metrics t) \<and>
   Metric AvgJitter v \<notin> set (ftp_metrics t) \<and>
   CheckMetrics stats =
     Banner # voip_metrics (accumulate zero_totals stats)
            @ ftp_metrics (accumulate zero_totals stats) \<and>
   CheckMetrics (map (with_ftp_jitter j) stats) = CheckMetrics stats"
  by (simp add: voip_metrics_def ftp_metrics_def Let_def CheckMetrics_def
        accumulate_with_ftp_jitter)

theorem summary_shapes_witness:
  "0 < totalRxVoIP (accumulate zero_totals sample_flows) \<and>
   0 < totalRxFTP (accumulate zero_totals sample_flows) \<and>
   (\<exists>loss delay jitter.
      voip_metrics (accumulate zero_totals sample_flows) =
        [VoIPHeading, Metric PacketLoss loss, Metric AvgLatency delay,
         Metric AvgJitter jitter]) \<and>
   (\<exists>loss delay throughput.
      ftp_metrics (accumulate zero_totals sample_flows) =
        [FTPHeading, Metric PacketLoss loss, Metric AvgLatency delay,
         Metric Throughput throughput]) \<and>
   \<not> 0 < totalRxVoIP (accumulate zero_totals lost_flows) \<and>
   \<not> 0 < totalRxFTP (accumulate zero_totals lost_flows) \<and>
   voip_metrics (accumulate zero_totals lost_flows) = [] \<and>
   ftp_metrics (accumulate zero_totals lost_flows) = []"
  using summary_shapes [where t = "accumulate zero_totals sample_flows"]
    summary_shapes [where t = "accumulate zero_totals lost_flows"]
  by (simp add: totals_VoIP totals_FTP sample_totals lost_totals)

section \<open>Properties of the routing protocol\<close>

subsection \<open>The three ways through \<open>RouteOutput\<close>, and \<open>RouteInput\<close>\<close>

lemma RouteOutput_video:
  "GetDscp header = 0x2e \<Longrightarrow>
     RouteOutput this p header oif sockerr =
       Some (Some \<lparr>Destination = GetDestination header,
                   Source = GetLocal (m_ipv4 this) (m_videoIfIndex this),
                   Gateway = m_videoNextHop this,
                   OutputDevice = GetNetDevice (m_ipv4 this) (m_videoIfIndex this)\<rparr>,
             sockerr)"
  by (subst RouteOutput.simps) (simp add: DSCP_VIDEO_EF_def)

lemma RouteOutput_data:
  "GetDscp header = 0x00 \<Longrightarrow>
     RouteOutput this p header oif sockerr =
       Some (Some \<lparr>Destination = GetDestination header,
                   Source = GetLocal (m_ipv4 this) (m_dataIfIndex this),
                   Gateway = m_dataNextHop this,
                   OutputDevice = GetNetDevice (m_ipv4 this) (m_dataIfIndex this)\<rparr>,
             sockerr)"
  by (subst RouteOutput.simps) (simp add: DSCP_VIDEO_EF_def DSCP_DATA_BE_def)

lemma RouteOutput_other:
  "GetDscp header \<noteq> 0x2e \<Longrightarrow> GetDscp header \<noteq> 0x00 \<Longrightarrow>
   GetRoutingProtocol (m_ipv4 this) = OtherProtocol prov \<Longrightarrow>
     RouteOutput this p header oif sockerr = Some (provRouteOutput prov p header oif sockerr)"
  by (subst RouteOutput.simps) (simp add: DSCP_VIDEO_EF_def DSCP_DATA_BE_def)

text \<open>
  When the registered protocol is the object itself, the last statement calls
  \<open>RouteOutput\<close> again on the same arguments, and so on: no call returns.
\<close>

lemma RouteOutput_self:
  assumes "GetDscp header \<noteq> 0x2e" and "GetDscp header \<noteq> 0x00"
    and "GetRoutingProtocol (m_ipv4 this) = ThisPbrRouting"
  shows "RouteOutput this p header oif sockerr = None"
proof (cases "RouteOutput this p header oif sockerr")
  case None
  then show ?thesis .
next
  case (Some r)
  have "GetRoutingProtocol (m_ipv4 this) = ThisPbrRouting \<longrightarrow>
          GetDscp header = DSCP_VIDEO_EF \<or> GetDscp header = DSCP_DATA_BE"
    by (rule RouteOutput.raw_induct
          [where P = "\<lambda>this p header oif sockerr y.
                        GetRoutingProtocol (m_ipv4 this) = ThisPbrRouting \<longrightarrow>
                        GetDscp header = DSCP_VIDEO_EF \<or> GetDscp header = DSCP_DATA_BE",
           OF _ Some])
       (fastforce simp: Let_def split: RoutingProtocolPtr.splits if_splits)
  with assms show ?thesis by (simp add: DSCP_VIDEO_EF_def DSCP_DATA_BE_def)
qed

lemma RouteInput_other:
  "GetRoutingProtocol (m_ipv4 this) = OtherProtocol prov \<Longrightarrow>
     RouteInput this p header idev ucb mcb lcb ecb =
       Some (provRouteInput prov p header idev ucb mcb lcb ecb)"
  by (subst RouteInput.simps) simp

lemma RouteInput_self:
  assumes "GetRoutingProtocol (m_ipv4 this) = ThisPbrRouting"
  shows "RouteInput this p header idev ucb mcb lcb ecb = None"
proof (cases "RouteInput this p header idev ucb mcb lcb ecb")
  case None
  then show ?thesis .
next
  case (Some b)
  have "GetRoutingProtocol (m_ipv4 this) \<noteq> ThisPbrRouting"
    by (rule RouteInput.raw_induct
          [where P = "\<lambda>this p header idev ucb mcb lcb ecb y.
                        GetRoutingProtocol (m_ipv4 this) \<noteq> ThisPbrRouting", OF _ Some])
       (auto split: RoutingProtocolPtr.splits)
  with assms show ?thesis by simp
qed

lemma pbr_registered: "GetRoutingProtocol (m_ipv4 (pbr stack)) = ThisPbrRouting"
  by (simp add: pbr_def ipv4Router_def SetRoutingProtocol_def)

lemma pbr_over_registered:
  "GetRoutingProtocol (m_ipv4 (pbr_over stack)) = OtherProtocol stack"
  by (simp add: pbr_over_def installed_ipv4_def)

text \<open>
  With another protocol registered below, both operations hand their arguments to it and
  return what it returns.
\<close>

lemma RouteOutput_delegates:
  "GetDscp header \<noteq> 0x2e \<Longrightarrow> GetDscp header \<noteq> 0x00 \<Longrightarrow>
     RouteOutput (pbr_over stack) p header oif sockerr =
       Some (provRouteOutput stack p header oif sockerr)"
  by (rule RouteOutput_other) (simp_all add: pbr_over_registered)

lemma RouteInput_delegates:
  "RouteInput (pbr_over stack) p header idev ucb mcb lcb ecb =
     Some (provRouteInput stack p header idev ucb mcb lcb ecb)"
  by (rule RouteInput_other) (rule pbr_over_registered)

subsection \<open>Classification\<close>

text \<open>
  C1. A header marked \<open>0x2e\<close> gets a route through the video next hop and the device of
  the video interface, to the destination of the header; a header marked \<open>0x00\<close> gets
  the same from the data next hop and interface. Only the destination field of such a
  route comes from the header. Every other marking takes neither branch: the result is
  that of the call on the registered protocol, which is no result at all when the
  registered protocol is the object itself.
\<close>

theorem RouteOutput_classification:
  "(GetDscp header = 0x2e \<longrightarrow>
      RouteOutput this p header oif sockerr =
        Some (Some \<lparr>Destination = GetDestination header,
                    Source = GetLocal (m_ipv4 this) (m_videoIfIndex this),
                    Gateway = m_videoNextHop this,
                    OutputDevice = GetNetDevice (m_ipv4 this) (m_videoIfIndex this)\<rparr>,
              sockerr)) \<and>
   (GetDscp header = 0x00 \<longrightarrow>
      RouteOutput this p header oif sockerr =
        Some (Some \<lparr>Destination = GetDestination header,
                    Source = GetLocal (m_ipv4 this) (m_dataIfIndex this),
                    Gateway = m_dataNextHop this,
                    OutputDevice = GetNetDevice (m_ipv4 this) (m_dataIfIndex this)\<rparr>,
              sockerr)) \<and>
   (GetDscp header \<noteq> 0x2e \<and> GetDscp header \<noteq> 0x00 \<longrightarrow>
      RouteOutput this p header oif sockerr =
        (case GetRoutingProtocol (m_ipv4 this) of
           ThisPbrRouting \<Rightarrow> None
         | OtherProtocol prov \<Rightarrow> Some (provRouteOutput prov p header oif sockerr)))"
  using RouteOutput_video [of header this p oif sockerr]
    RouteOutput_data [of header this p oif sockerr]
    RouteOutput_other [of header this _ p oif sockerr]
    RouteOutput_self [of header this p oif sockerr]
  by (auto split: RoutingProtocolPtr.splits)

theorem RouteOutput_classification_witness:
  "GetDscp ef_header = 0x2e \<and> GetDscp be_header = 0x00 \<and>
   GetDscp af_header \<noteq> 0x2e \<and> GetDscp af_header \<noteq> 0x00 \<and>
   RouteOutput (pbr_over no_route_provider) [] ef_header None 0 =
     Some (Some \<lparr>Destination = 0x0A000202, Source = 0x0A000201, Gateway = 0x0A000202,
                 OutputDevice = Some 2\<rparr>, 0) \<and>
   RouteOutput (pbr_over no_route_provider) [] be_header None 0 =
     Some (Some \<lparr>Destination = 0x0A000302, Source = 0x0A000301, Gateway = 0x0A000302,
                 OutputDevice = Some 3\<rparr>, 0) \<and>
   RouteOutput (pbr_over no_route_provider) [] af_header None 0 = Some (None, 10)"
  using RouteOutput_classification [of ef_header "pbr_over no_route_provider" "[]" None 0]
    RouteOutput_classification [of be_header "pbr_over no_route_provider" "[]" None 0]
    RouteOutput_classification [of af_header "pbr_over no_route_provider" "[]" None 0]
  by (simp add: ef_header_def be_header_def af_header_def pbr_over_def pbr_def
        installed_ipv4_def no_route_provider_def)

subsection \<open>What a policy route depends on\<close>

text \<open>
  C9. On a header marked \<open>0x2e\<close> or \<open>0x00\<close> the call returns a route and leaves
  \<open>sockerr\<close> as it was. The route is the same for any packet, any output device hint, any
  incoming \<open>sockerr\<close> and any other header with the same marking and destination. A call
  that returns with \<open>sockerr\<close> changed was made on a header of neither marking.
\<close>

theorem policy_route_frame:
  "((GetDscp header = 0x2e \<or> GetDscp header = 0x00) \<and>
    GetDscp header' = GetDscp header \<and> GetDestination header' = GetDestination header \<longrightarrow>
      (\<exists>route.
         RouteOutput this p header oif sockerr = Some (Some route, sockerr) \<and>
         RouteOutput this p' header' oif' sockerr' = Some (Some route, sockerr'))) \<and>
   (RouteOutput this p header oif sockerr = Some (r, e) \<and> e \<noteq> sockerr \<longrightarrow>
      GetDscp header \<noteq> 0x2e \<and> GetDscp header \<noteq> 0x00)"
  using RouteOutput_video [of header this p oif sockerr]
    RouteOutput_video [of header' this p' oif' sockerr']
    RouteOutput_data [of header this p oif sockerr]
    RouteOutput_data [of header' this p' oif' sockerr']
  by auto

theorem policy_route_frame_witness:
  "GetDscp ef_header = 0x2e \<and>
   GetDscp (ef_header\<lparr>GetSource := 0x0A000105, GetTtl := 3\<rparr>) = GetDscp ef_header \<and>
   GetDestination (ef_header\<lparr>GetSource := 0x0A000105, GetTtl := 3\<rparr>) =
     GetDestination ef_header \<and>
   (\<exists>route.
      RouteOutput (pbr fixed_route_provider) [] ef_header None 0 = Some (Some route, 0) \<and>
      RouteOutput (pbr fixed_route_provider) [1, 2, 3]
        (ef_header\<lparr>GetSource := 0x0A000105, GetTtl := 3\<rparr>) (Some 1) 10 =
        Some (Some route, 10)) \<and>
   RouteOutput (pbr_over no_route_provider) [] af_header None 0 = Some (None, 10) \<and>
   (10 :: nat) \<noteq> 0 \<and>
   GetDscp af_header \<noteq> 0x2e \<and> GetDscp af_header \<noteq> 0x00"
proof -
  have run: "RouteOutput (pbr_over no_route_provider) [] af_header None 0 = Some (None, 10)"
    by (subst RouteOutput_delegates) (simp_all add: af_header_def no_route_provider_def)
  show ?thesis
    using
      policy_route_frame
        [where header = ef_header
           and header' = "ef_header\<lparr>GetSource := 0x0A000105, GetTtl := 3\<rparr>"
           and this = "pbr fixed_route_provider" and p = "[]" and oif = None
           and sockerr = 0 and p' = "[1, 2, 3]" and oif' = "Some 1" and sockerr' = 10]
      policy_route_frame
        [where header = af_header and this = "pbr_over no_route_provider" and p = "[]"
           and oif = None and sockerr = 0 and r = None and e = 10]
      run
    by (simp add: ef_header_def)
qed

subsection \<open>Delegation on the router of \<open>main\<close>\<close>

text \<open>
  C5. On the router that \<open>main\<close> builds, the protocol that \<open>GetRoutingProtocol()\<close>
  returns is the \<open>PbrRouting\<close> object itself. For an outbound packet marked AF11, which
  matches neither class, \<open>RouteOutput\<close> therefore calls itself without end: whatever the
  packet, the device hint and \<open>sockerr\<close>, and whatever protocol the stack had installed,
  it returns neither a route nor an error of a protocol below.
\<close>

theorem RouteOutput_fallback_never_returns:
  "RouteOutput (pbr stack) p af_header oif sockerr = None"
  by (rule RouteOutput_self) (simp_all add: af_header_def pbr_registered)

text \<open>
  C8. On the same router, \<open>RouteInput\<close> calls itself without end on every inbound
  packet and every combination of arguments: it returns no boolean.
\<close>

theorem RouteInput_never_returns:
  "RouteInput (pbr stack) p header idev ucb mcb lcb ecb = None"
  by (rule RouteInput_self) (rule pbr_registered)

end
